theory Spec2Isabelle
  imports Main
begin

section \<open>Smart GitHub Profile Enhancer: the App component of src/src/App.js\<close>

text \<open>
  The component keeps seven state cells (\<open>useState\<close>), runs one asynchronous handler,
  \<open>handleAnalyze\<close>, and renders four panels from the cells. The embedding below has
  \<^item> the state cells as the record \<open>ui_state\<close>;
  \<^item> the three network answers as values handed to the handler (a \<open>fetch_result\<close> each);
  \<^item> every \<open>throw\<close> of the handler as a value of \<open>exn\<close> that reaches \<open>catch_finally\<close>,
    the model of the \<open>catch\<close> and \<open>finally\<close> blocks;
  \<^item> the handler cut at its \<open>await\<close>s into \<open>handleAnalyze_start\<close>, \<open>resume_user\<close>,
    \<open>resume_repos\<close> and \<open>resume_gen\<close>, with \<open>handleAnalyze\<close> their composition;
  \<^item> the variable \<open>userData\<close> that the \<open>catch\<close> block reads as what it is in JavaScript:
    the value of the render in which the handler was created, carried by the task;
  \<^item> the drawing of the page as \<open>render\<close>, with the exceptions the drawing can throw.
\<close>

subsection \<open>Data\<close>

text \<open>The profile object of the user resource, with the fields the component reads.\<close>

record profile =
  login :: string
  name :: "string option"
  bio :: "string option"
  avatar_url :: string
  repos_url :: string

text \<open>One entry of the repositories resource (\<open>id\<close> is \<open>repo_id\<close>, \<open>name\<close> is \<open>repo_name\<close>).\<close>

record repo =
  repo_id :: nat
  repo_name :: string
  description :: "string option"
  language :: "string option"
  stargazers_count :: nat
  forks_count :: nat
  html_url :: string

text \<open>
  What \<open>JSON.parse\<close> can return. The parsed suggestions are stored as they come, so the
  state cell holds a value of this type. Numbers are kept to the integers.
\<close>

datatype json =
    JNull
  | JBool bool
  | JNum int
  | JStr string
  | JArr "json list"
  | JObj "(string \<times> json) list"

text \<open>
  A property of a JSON object that the handler tests before it reads on: it is not
  there (reading it gives \<open>undefined\<close>), it is \<open>null\<close>, or it has a value.
\<close>

datatype 'a field =
    Missing
  | Null
  | Present 'a

text \<open>
  The answer of the generative endpoint, as far as line 99 to 107 read it:
  \<open>result.candidates[0].content.parts[0].text\<close> and \<open>result.promptFeedback.blockReason\<close>.
  Every property may be missing or \<open>null\<close>; an entry of an array is there, and is
  \<open>null\<close> (\<open>None\<close>) or an object.
\<close>

record part =
  part_text :: "string field"

record content =
  parts :: "part option list field"

record candidate =
  candidate_content :: "content field"

record prompt_feedback =
  blockReason :: "string field"

record gen_result =
  candidates :: "candidate option list field"
  promptFeedback :: "prompt_feedback field"

text \<open>
  The outcome of \<open>await fetch(...)\<close> followed by \<open>await response.json()\<close>: the fetch
  rejects (with the engine's message), or a response arrives with its status and a body
  that \<open>json()\<close> either rejects (message) or parses. The body is read only on the paths
  where the source calls \<open>json()\<close>.
\<close>

datatype 'a fetch_result =
    NetworkError string
  | Response nat "string + 'a"

text \<open>\<open>response.ok\<close>: the status is in the range 200 to 299.\<close>

definition ok :: "nat \<Rightarrow> bool" where
  "ok st = (200 \<le> st \<and> st \<le> 299)"

text \<open>The seven \<open>useState\<close> cells, line 6 to 12.\<close>

record ui_state =
  username :: string
  userData :: "profile option"
  repos :: "repo list"
  suggestions :: json
  isLoading :: bool
  error :: "string option"
  copiedIndex :: "nat option"

definition initial :: ui_state where
  "initial = \<lparr>username = [], userData = None, repos = [], suggestions = JArr [],
     isLoading = False, error = None, copiedIndex = None\<rparr>"

text \<open>
  The values interpolated into the prompt (line 53 to 55); the request body is kept as
  these values, not as the rendered text.
\<close>

record repo_projection =
  pr_name :: string
  pr_description :: "string option"
  pr_stars :: nat
  pr_language :: "string option"

record prompt_data =
  p_name :: string
  p_bio :: "string option"
  p_repositories :: "repo_projection list"

datatype request =
    Get string
  | Post string prompt_data

subsection \<open>Errors\<close>

text \<open>
  One constructor for each \<open>throw new Error(...)\<close> of the handler, in source order, and
  \<open>Thrown\<close> for an exception of the platform (a rejected fetch, a body or a content
  that does not parse, a property read on \<open>undefined\<close>) with its message.
\<close>

datatype exn =
    UserNotFound
  | ProfileFetchFailed nat
  | RepositoriesFetchFailed
  | GenerationForbidden
  | GenerationFailed nat
  | ContentBlocked string
  | NoSuggestions
  | Thrown string

definition digit_char :: "nat \<Rightarrow> char" where
  "digit_char d =
     (if d = 0 then CHR ''0'' else if d = 1 then CHR ''1'' else if d = 2 then CHR ''2''
      else if d = 3 then CHR ''3'' else if d = 4 then CHR ''4'' else if d = 5 then CHR ''5''
      else if d = 6 then CHR ''6'' else if d = 7 then CHR ''7'' else if d = 8 then CHR ''8''
      else CHR ''9'')"

text \<open>The decimal text of a status, as string interpolation writes it.\<close>

fun string_of_nat :: "nat \<Rightarrow> string" where
  "string_of_nat n =
     (if n < 10 then [digit_char n]
      else string_of_nat (n div 10) @ [digit_char (n mod 10)])"

declare string_of_nat.simps [simp del]

text \<open>\<open>err.message\<close>.\<close>

fun message :: "exn \<Rightarrow> string" where
  "message UserNotFound = ''GitHub user not found.''"
| "message (ProfileFetchFailed st) =
     ''Failed to fetch GitHub user data. Status: '' @ string_of_nat st"
| "message RepositoriesFetchFailed = ''Failed to fetch GitHub repository data.''"
| "message GenerationForbidden = ''API_KEY_RESTRICTED''"
| "message (GenerationFailed st) = ''AI API call failed with status: '' @ string_of_nat st"
| "message (ContentBlocked reason) = ''AI content blocked: '' @ reason"
| "message NoSuggestions = ''AI failed to generate valid suggestions.''"
| "message (Thrown m) = m"

definition validation_message :: string where
  "validation_message = ''Please enter a GitHub username.''"

definition restricted_message :: string where
  "restricted_message =
     ''The AI analysis is disabled on this public site due to API key restrictions. This feature works in local development.''"

definition unexpected_message :: string where
  "unexpected_message = ''An unexpected error occurred. Please try again later.''"

text \<open>The text that the \<open>catch\<close> block passes to \<open>setError\<close>, line 112 to 116.\<close>

definition shown_message :: "exn \<Rightarrow> string" where
  "shown_message e =
     (if message e = ''API_KEY_RESTRICTED'' then restricted_message
      else if message e = [] then unexpected_message
      else message e)"

text \<open>
  The \<open>catch\<close> and \<open>finally\<close> blocks, line 110 to 124. \<open>closure\<close> is the \<open>userData\<close>
  the handler closed over: line 118 tests that variable, not the state cell.
\<close>

definition catch_finally :: "profile option \<Rightarrow> exn \<Rightarrow> ui_state \<Rightarrow> ui_state" where
  "catch_finally closure e s =
     (let s1 = s\<lparr>error := Some (shown_message e)\<rparr>;
          s2 = (if closure = None then s1\<lparr>userData := None, repos := []\<rparr> else s1)
      in s2\<lparr>isLoading := False\<rparr>)"

subsection \<open>The handler\<close>

definition user_url :: "string \<Rightarrow> string" where
  "user_url u = ''https://api.github.com/users/'' @ u"

definition apiKey :: string where
  "apiKey = []"

definition apiUrl :: string where
  "apiUrl =
     ''https://generativelanguage.googleapis.com/v1beta/models/gemini-2.0-flash:generateContent?key=''
       @ apiKey"

definition repos_request :: "profile \<Rightarrow> request" where
  "repos_request p = Get (repos_url p @ ''?sort=updated&per_page=10'')"

text \<open>\<open>a || b\<close> on an optional string: \<open>a\<close> when it is there and not empty.\<close>

definition or_else :: "string option \<Rightarrow> string \<Rightarrow> string" where
  "or_else a b = (case a of None \<Rightarrow> b | Some x \<Rightarrow> if x = [] then b else x)"

definition project :: "repo \<Rightarrow> repo_projection" where
  "project r = \<lparr>pr_name = repo_name r, pr_description = description r,
     pr_stars = stargazers_count r, pr_language = language r\<rparr>"

definition gen_request :: "profile \<Rightarrow> repo list \<Rightarrow> request" where
  "gen_request p rs =
     Post apiUrl \<lparr>p_name = or_else (name p) (login p), p_bio = bio p,
       p_repositories = map project rs\<rparr>"

text \<open>A handler that is waiting at an \<open>await\<close>.\<close>

datatype stage =
    AwaitUser
  | AwaitRepos profile
  | AwaitGen

record task =
  closure_userData :: "profile option"
  task_stage :: stage

text \<open>Line 15 to 27: the part of the handler that runs before the first \<open>await\<close>.\<close>

definition handleAnalyze_start :: "ui_state \<Rightarrow> ui_state \<times> request list \<times> task option" where
  "handleAnalyze_start s =
     (if username s = [] then (s\<lparr>error := Some validation_message\<rparr>, [], None)
      else
        (s\<lparr>isLoading := True, error := None, userData := None, repos := [],
            suggestions := JArr []\<rparr>,
         [Get (user_url (username s))],
         Some \<lparr>closure_userData = userData s, task_stage = AwaitUser\<rparr>))"

text \<open>Line 27 to 36: the answer of the user resource arrives.\<close>

definition resume_user ::
  "profile option \<Rightarrow> profile fetch_result \<Rightarrow> ui_state \<Rightarrow> ui_state \<times> request list \<times> stage option"
where
  "resume_user c r s =
     (case r of
        NetworkError m \<Rightarrow> (catch_finally c (Thrown m) s, [], None)
      | Response st b \<Rightarrow>
          if st = 404 then (catch_finally c UserNotFound s, [], None)
          else if \<not> ok st then (catch_finally c (ProfileFetchFailed st) s, [], None)
          else (case b of
                  Inl m \<Rightarrow> (catch_finally c (Thrown m) s, [], None)
                | Inr p \<Rightarrow> (s, [repos_request p], Some (AwaitRepos p))))"

text \<open>Line 36 to 88: the answer of the repositories resource arrives.\<close>

definition resume_repos ::
  "profile option \<Rightarrow> profile \<Rightarrow> repo list fetch_result \<Rightarrow> ui_state
     \<Rightarrow> ui_state \<times> request list \<times> stage option"
where
  "resume_repos c p r s =
     (case r of
        NetworkError m \<Rightarrow> (catch_finally c (Thrown m) s, [], None)
      | Response st b \<Rightarrow>
          if \<not> ok st then (catch_finally c RepositoriesFetchFailed s, [], None)
          else (case b of
                  Inl m \<Rightarrow> (catch_finally c (Thrown m) s, [], None)
                | Inr rs \<Rightarrow>
                    (s\<lparr>userData := Some p, repos := rs\<rparr>, [gen_request p rs], Some AwaitGen)))"

text \<open>
  The condition of line 99, \<open>result.candidates && result.candidates.length > 0 &&
  result.candidates[0].content.parts[0].text\<close>: the text when the condition is truthy,
  \<open>None\<close> when it is falsy, and the \<open>TypeError\<close> of a property read on \<open>undefined\<close> or
  on \<open>null\<close>. The message of the \<open>TypeError\<close> is the engine's; V8's is used, which names
  what was read from (\<open>undefined\<close> or \<open>null\<close>) and the property.
\<close>

definition cannot_read :: "string \<Rightarrow> string \<Rightarrow> string" where
  "cannot_read v k =
     ''Cannot read properties of '' @ v @ '' (reading '' @ [CHR 0x27] @ k @ [CHR 0x27] @ '')''"

definition content_text :: "gen_result \<Rightarrow> exn + string option" where
  "content_text result =
     (case candidates result of
        Missing \<Rightarrow> Inr None
      | Null \<Rightarrow> Inr None
      | Present [] \<Rightarrow> Inr None
      | Present (None # _) \<Rightarrow> Inl (Thrown (cannot_read ''null'' ''content''))
      | Present (Some c # _) \<Rightarrow>
          (case candidate_content c of
             Missing \<Rightarrow> Inl (Thrown (cannot_read ''undefined'' ''parts''))
           | Null \<Rightarrow> Inl (Thrown (cannot_read ''null'' ''parts''))
           | Present ct \<Rightarrow>
               (case parts ct of
                  Missing \<Rightarrow> Inl (Thrown (cannot_read ''undefined'' ''0''))
                | Null \<Rightarrow> Inl (Thrown (cannot_read ''null'' ''0''))
                | Present [] \<Rightarrow> Inl (Thrown (cannot_read ''undefined'' ''text''))
                | Present (None # _) \<Rightarrow> Inl (Thrown (cannot_read ''null'' ''text''))
                | Present (Some pt # _) \<Rightarrow>
                    (case part_text pt of
                       Missing \<Rightarrow> Inr None
                     | Null \<Rightarrow> Inr None
                     | Present t \<Rightarrow> if t = [] then Inr None else Inr (Some t)))))"

text \<open>Line 104: \<open>result.promptFeedback && result.promptFeedback.blockReason\<close>.\<close>

definition block_reason :: "gen_result \<Rightarrow> string option" where
  "block_reason result =
     (case promptFeedback result of
        Missing \<Rightarrow> None
      | Null \<Rightarrow> None
      | Present fb \<Rightarrow>
          (case blockReason fb of
             Missing \<Rightarrow> None
           | Null \<Rightarrow> None
           | Present r \<Rightarrow> if r = [] then None else Some r))"

text \<open>
  Line 88 to 124: the answer of the generative endpoint arrives. \<open>parse\<close> is the
  platform's \<open>JSON.parse\<close>: \<open>Inl m\<close> when it throws with message \<open>m\<close>.
\<close>

definition resume_gen ::
  "(string \<Rightarrow> string + json) \<Rightarrow> profile option \<Rightarrow> gen_result fetch_result \<Rightarrow> ui_state \<Rightarrow> ui_state"
where
  "resume_gen parse c r s =
     (case r of
        NetworkError m \<Rightarrow> catch_finally c (Thrown m) s
      | Response st b \<Rightarrow>
          if st = 403 then catch_finally c GenerationForbidden s
          else if \<not> ok st then catch_finally c (GenerationFailed st) s
          else (case b of
                  Inl m \<Rightarrow> catch_finally c (Thrown m) s
                | Inr result \<Rightarrow>
                    (case content_text result of
                       Inl e \<Rightarrow> catch_finally c e s
                     | Inr (Some jsonText) \<Rightarrow>
                         (case parse jsonText of
                            Inl m \<Rightarrow> catch_finally c (Thrown m) s
                          | Inr parsedSuggestions \<Rightarrow>
                              s\<lparr>suggestions := parsedSuggestions, isLoading := False\<rparr>)
                     | Inr None \<Rightarrow>
                         (case block_reason result of
                            Some reason \<Rightarrow> catch_finally c (ContentBlocked reason) s
                          | None \<Rightarrow> catch_finally c NoSuggestions s))))"

text \<open>The three answers one run of the handler receives.\<close>

record world =
  user_response :: "profile fetch_result"
  repos_response :: "repo list fetch_result"
  gen_response :: "gen_result fetch_result"

text \<open>
  One run of \<open>handleAnalyze\<close> from the state of the render that created it, with nothing
  else happening in between: the final state and the requests sent, in order.
\<close>

definition handleAnalyze ::
  "(string \<Rightarrow> string + json) \<Rightarrow> world \<Rightarrow> ui_state \<Rightarrow> ui_state \<times> request list"
where
  "handleAnalyze parse w s =
     (case handleAnalyze_start s of
        (s1, q1, None) \<Rightarrow> (s1, q1)
      | (s1, q1, Some t) \<Rightarrow>
          (case resume_user (closure_userData t) (user_response w) s1 of
             (s2, q2, None) \<Rightarrow> (s2, q1 @ q2)
           | (s2, q2, Some AwaitUser) \<Rightarrow> (s2, q1 @ q2)
           | (s2, q2, Some AwaitGen) \<Rightarrow> (s2, q1 @ q2)
           | (s2, q2, Some (AwaitRepos p)) \<Rightarrow>
               (case resume_repos (closure_userData t) p (repos_response w) s2 of
                  (s3, q3, None) \<Rightarrow> (s3, q1 @ q2 @ q3)
                | (s3, q3, Some _) \<Rightarrow>
                    (resume_gen parse (closure_userData t) (gen_response w) s3, q1 @ q2 @ q3))))"

subsection \<open>Rendering\<close>

text \<open>\<open>String.prototype.includes\<close>.\<close>

fun starts_with :: "string \<Rightarrow> string \<Rightarrow> bool" where
  "starts_with s [] = True"
| "starts_with [] (b # bs) = False"
| "starts_with (a # as) (b # bs) = (a = b \<and> starts_with as bs)"

fun str_includes :: "string \<Rightarrow> string \<Rightarrow> bool" where
  "str_includes [] t = starts_with [] t"
| "str_includes (c # cs) t = (starts_with (c # cs) t \<or> str_includes cs t)"

text \<open>
  \<open>renderError\<close>, line 142 to 162: the yellow "AI Analysis Disabled" box or the red
  "An Error Occurred" box, each with the message.
\<close>

datatype error_rendering =
    Restricted string
  | Generic string

definition renderError :: "string option \<Rightarrow> error_rendering option" where
  "renderError e =
     (case e of
        None \<Rightarrow> None
      | Some m \<Rightarrow>
          if m = [] then None
          else if str_includes m ''API key restrictions'' then Some (Restricted m)
          else Some (Generic m))"

definition truthy :: "string option \<Rightarrow> bool" where
  "truthy e = (case e of None \<Rightarrow> False | Some m \<Rightarrow> m \<noteq> [])"

text \<open>
  What can be thrown while the page is drawn. The results panel (line 225 to 283) reads
  the suggestions as they were stored: \<open>suggestions.length > 0 &&
  suggestions.map(...)\<close> on line 236 and 243, and \<open>s.title\<close>, \<open>s.markdown\<close> of every
  entry on line 246 and 256, which are handed to React as children. Nothing catches an
  exception of the drawing, and the component is taken off the page.
\<close>

datatype render_failure =
    NullProperty string
  | NotAFunction
  | InvalidChild

text \<open>
  A value React accepts as a child: anything but an object; an array when all its
  entries are accepted.
\<close>

fun valid_child :: "json \<Rightarrow> bool" where
  "valid_child (JObj kvs) = False"
| "valid_child (JArr xs) = list_all valid_child xs"
| "valid_child v = True"

text \<open>
  \<open>s.title\<close> and \<open>s.markdown\<close> of an entry that is not \<open>null\<close>: a property that is not
  there is \<open>undefined\<close>, which draws nothing. The pairs of an object are as
  \<open>JSON.parse\<close> leaves them, one for each key.
\<close>

definition child_ok :: "json option \<Rightarrow> bool" where
  "child_ok c = (case c of None \<Rightarrow> True | Some v \<Rightarrow> valid_child v)"

definition item_children_ok :: "json \<Rightarrow> bool" where
  "item_children_ok s =
     (case s of
        JObj kvs \<Rightarrow> child_ok (map_of kvs ''title'') \<and> child_ok (map_of kvs ''markdown'')
      | _ \<Rightarrow> True)"

text \<open>
  \<open>x > 0\<close> for the value \<open>x\<close> of a property \<open>length\<close>. For a string and for an array
  the comparison goes through the platform's conversion to a number, which is the
  parameter \<open>pos\<close>.
\<close>

definition length_positive :: "(json \<Rightarrow> bool) \<Rightarrow> json \<Rightarrow> bool" where
  "length_positive pos x =
     (case x of
        JNull \<Rightarrow> False
      | JBool b \<Rightarrow> b
      | JNum n \<Rightarrow> 0 < n
      | JObj kvs \<Rightarrow> False
      | _ \<Rightarrow> pos x)"

text \<open>
  Line 236 to 262 on the stored value. \<open>null\<close> has no \<open>length\<close>; a boolean or a number
  has the length \<open>undefined\<close>, and nothing is drawn; a string that is not empty and an
  object with a positive \<open>length\<close> have no function \<open>map\<close>; the entries of an array are
  read in the callback of \<open>map\<close>, where a \<open>null\<close> entry throws before React sees any
  child.
\<close>

definition suggestions_failure :: "(json \<Rightarrow> bool) \<Rightarrow> json \<Rightarrow> render_failure option" where
  "suggestions_failure pos v =
     (case v of
        JNull \<Rightarrow> Some (NullProperty ''length'')
      | JBool b \<Rightarrow> None
      | JNum n \<Rightarrow> None
      | JStr t \<Rightarrow> if t = [] then None else Some NotAFunction
      | JArr xs \<Rightarrow>
          if JNull \<in> set xs then Some (NullProperty ''title'')
          else if list_all item_children_ok xs then None
          else Some InvalidChild
      | JObj kvs \<Rightarrow>
          (case map_of kvs ''length'' of
             None \<Rightarrow> None
           | Some x \<Rightarrow> if length_positive pos x then Some NotAFunction else None))"

text \<open>
  The page, line 164 to 287. The results panel is given by the three values it is drawn
  from (the card from \<open>userData\<close>, the suggestion list from \<open>suggestions\<close>, the grid from
  \<open>repos\<close>). When the drawing throws, \<open>crash\<close> holds what was thrown and nothing is on
  the page: no panel and no button.
\<close>

record results_view =
  card :: profile
  suggestion_list :: json
  repo_grid :: "repo list"

record view =
  submit_disabled :: bool
  loading_panel :: bool
  ready_panel :: bool
  error_panel :: "error_rendering option"
  results_panel :: "results_view option"
  crash :: "render_failure option"

definition blank :: "render_failure \<Rightarrow> view" where
  "blank f = \<lparr>submit_disabled = False, loading_panel = False, ready_panel = False,
     error_panel = None, results_panel = None, crash = Some f\<rparr>"

definition render :: "(json \<Rightarrow> bool) \<Rightarrow> ui_state \<Rightarrow> view" where
  "render pos s =
     (case (if isLoading s then None
            else (case userData s of
                    None \<Rightarrow> None
                  | Some p \<Rightarrow> suggestions_failure pos (suggestions s))) of
        Some f \<Rightarrow> blank f
      | None \<Rightarrow>
          \<lparr>submit_disabled = isLoading s,
           loading_panel = isLoading s,
           ready_panel = (\<not> isLoading s \<and> userData s = None \<and> \<not> truthy (error s)),
           error_panel =
             (if truthy (error s) \<and> \<not> isLoading s then renderError (error s) else None),
           results_panel =
             (if isLoading s then None
              else (case userData s of
                      None \<Rightarrow> None
                    | Some p \<Rightarrow>
                        Some \<lparr>card = p, suggestion_list = suggestions s,
                          repo_grid = repos s\<rparr>)),
           crash = None\<rparr>)"

subsection \<open>The component and its events\<close>

text \<open>
  The component between events, while it is on the page: the state cells, the handlers
  still waiting at an \<open>await\<close>, and every request sent so far.
\<close>

record component =
  ui :: ui_state
  pending :: "task list"
  sent :: "request list"

definition submit :: "component \<Rightarrow> component" where
  "submit k =
     (case handleAnalyze_start (ui k) of
        (s, q, t) \<Rightarrow>
          \<lparr>ui = s,
           pending = pending k @ (case t of None \<Rightarrow> [] | Some x \<Rightarrow> [x]),
           sent = sent k @ q\<rparr>)"

text \<open>
  Line 190 to 193: the button calls the handler, and is disabled while loading
  (\<open>disabled={isLoading}\<close>).
\<close>

definition click :: "component \<Rightarrow> component" where
  "click k = (if isLoading (ui k) then k else submit k)"

text \<open>Line 187: \<open>onKeyPress={(e) => e.key === 'Enter' && handleAnalyze()}\<close>.\<close>

definition keyPress :: "string \<Rightarrow> component \<Rightarrow> component" where
  "keyPress key k = (if key = ''Enter'' then submit k else k)"

text \<open>Line 184: \<open>onChange={(e) => setUsername(e.target.value)}\<close>.\<close>

definition change :: "string \<Rightarrow> component \<Rightarrow> component" where
  "change v k = k\<lparr>ui := (ui k)\<lparr>username := v\<rparr>\<rparr>"

definition mount :: component where
  "mount = \<lparr>ui = initial, pending = [], sent = []\<rparr>"

subsection \<open>Vocabulary of the properties\<close>

text \<open>
  The state cells when the repositories have been stored (line 42 and 43) and the
  request to the generative endpoint is under way.
\<close>

definition fetched :: "ui_state \<Rightarrow> profile \<Rightarrow> repo list \<Rightarrow> ui_state" where
  "fetched s p rs =
     \<lparr>username = username s, userData = Some p, repos = rs, suggestions = JArr [],
      isLoading = True, error = None, copiedIndex = copiedIndex s\<rparr>"

text \<open>The error view and the results view are on the page (line 223 and 225).\<close>

definition in_error :: "(json \<Rightarrow> bool) \<Rightarrow> ui_state \<Rightarrow> bool" where
  "in_error pos s = (error_panel (render pos s) \<noteq> None)"

definition in_results :: "(json \<Rightarrow> bool) \<Rightarrow> ui_state \<Rightarrow> bool" where
  "in_results pos s = (results_panel (render pos s) \<noteq> None)"

text \<open>The state cells when line 19 to 23 have run and the user resource is awaited.\<close>

definition cleared :: "ui_state \<Rightarrow> ui_state" where
  "cleared s =
     \<lparr>username = username s, userData = None, repos = [], suggestions = JArr [],
      isLoading = True, error = None, copiedIndex = copiedIndex s\<rparr>"

text \<open>A query of blanks only: space, tab, line feed, carriage return.\<close>

definition is_space :: "char \<Rightarrow> bool" where
  "is_space c = (c = CHR '' '' \<or> c = CHR 0x09 \<or> c = CHR 0x0A \<or> c = CHR 0x0D)"

definition whitespace_only :: "string \<Rightarrow> bool" where
  "whitespace_only q = list_all is_space q"

text \<open>
  The free text of an error (a block reason of the service, a message of the platform)
  does not carry the text that \<open>renderError\<close> looks for, nor is it the sentinel of
  line 91. The errors with a fixed text or a status have no free text.
\<close>

definition plain :: "exn \<Rightarrow> bool" where
  "plain e =
     (case e of
        ContentBlocked reason \<Rightarrow> \<not> str_includes reason ''API key restrictions''
      | Thrown m \<Rightarrow> m \<noteq> ''API_KEY_RESTRICTED'' \<and> \<not> str_includes m ''API key restrictions''
      | _ \<Rightarrow> True)"

text \<open>
  The shape the specification asks of the parsed content: an array of objects, each with
  non-empty strings \<open>title\<close> and \<open>markdown\<close>. The source has no such check.
\<close>

fun nonempty_string_field :: "(string \<times> json) list \<Rightarrow> string \<Rightarrow> bool" where
  "nonempty_string_field kvs k =
     (case map_of kvs k of Some (JStr v) \<Rightarrow> v \<noteq> [] | _ \<Rightarrow> False)"

fun suggestion_shaped :: "json \<Rightarrow> bool" where
  "suggestion_shaped (JObj kvs) =
     (nonempty_string_field kvs ''title'' \<and> nonempty_string_field kvs ''markdown'')"
| "suggestion_shaped _ = False"

fun well_shaped :: "json \<Rightarrow> bool" where
  "well_shaped (JArr xs) = list_all suggestion_shaped xs"
| "well_shaped _ = False"

subsection \<open>Sample data\<close>

definition octocat :: profile where
  "octocat = \<lparr>login = ''octocat'', name = Some ''The Octocat'', bio = None,
     avatar_url = ''https://avatars.githubusercontent.com/u/583231'',
     repos_url = ''https://api.github.com/users/octocat/repos''\<rparr>"

definition hello_world :: repo where
  "hello_world = \<lparr>repo_id = 1296269, repo_name = ''Hello-World'',
     description = Some ''My first repository'', language = None, stargazers_count = 80,
     forks_count = 9, html_url = ''https://github.com/octocat/Hello-World''\<rparr>"

text \<open>
  A stand-in for \<open>JSON.parse\<close>. It agrees with \<open>JSON.parse\<close> on the four texts
  \<open>null\<close>, \<open>[null]\<close>, \<open>{}\<close> and \<open>[]\<close>, and it is applied to no other text below. It
  throws on any other text; the message of that branch is a placeholder for the engine's
  and no property below reads it.
\<close>

definition JSON_parse_sample :: "string \<Rightarrow> string + json" where
  "JSON_parse_sample t =
     (if t = ''null'' then Inr JNull
      else if t = ''[null]'' then Inr (JArr [JNull])
      else if t = ''{}'' then Inr (JObj [])
      else if t = ''[]'' then Inr (JArr [])
      else Inl ''SyntaxError'')"

text \<open>A component just mounted, with \<open>octocat\<close> typed into the field.\<close>

definition fresh :: ui_state where
  "fresh = initial\<lparr>username := ''octocat''\<rparr>"

text \<open>Both GitHub resources answer 200; the generative endpoint answers \<open>g\<close>.\<close>

definition answers :: "gen_result fetch_result \<Rightarrow> world" where
  "answers g = \<lparr>user_response = Response 200 (Inr octocat),
     repos_response = Response 200 (Inr [hello_world]), gen_response = g\<rparr>"

definition with_text :: "string \<Rightarrow> gen_result" where
  "with_text t = \<lparr>candidates = Present [Some \<lparr>candidate_content =
       Present \<lparr>parts = Present [Some \<lparr>part_text = Present t\<rparr>]\<rparr>\<rparr>],
     promptFeedback = Missing\<rparr>"

text \<open>A page that shows the results of an earlier analysis, the field emptied.\<close>

definition shown_results :: component where
  "shown_results =
     \<lparr>ui = \<lparr>username = [], userData = Some octocat, repos = [hello_world],
        suggestions = JArr [JObj [(''title'', JStr ''Badges''), (''markdown'', JStr ''# Hi'')]],
        isLoading = False, error = None, copiedIndex = Some 0\<rparr>,
      pending = [], sent = []\<rparr>"

text \<open>
  An answer of the generative endpoint whose only candidate was stopped and has no
  content, with the block reason in the prompt feedback.
\<close>

definition blocked_candidate :: gen_result where
  "blocked_candidate = \<lparr>candidates = Present [Some \<lparr>candidate_content = Missing\<rparr>],
     promptFeedback = Present \<lparr>blockReason = Present ''SAFETY''\<rparr>\<rparr>"

text \<open>The user resource answers 200, the repositories resource answers \<open>st\<close>.\<close>

definition repos_answer :: "nat \<Rightarrow> world" where
  "repos_answer st = \<lparr>user_response = Response 200 (Inr octocat),
     repos_response = Response st (Inl []), gen_response = NetworkError []\<rparr>"

section \<open>Properties\<close>

subsection \<open>Auxiliary facts\<close>

lemmas run_defs = handleAnalyze_def handleAnalyze_start_def resume_user_def resume_repos_def
  resume_gen_def catch_finally_def shown_message_def content_text_def block_reason_def ok_def
  Let_def

lemmas sample_defs = fresh_def initial_def answers_def with_text_def octocat_def hello_world_def
  JSON_parse_sample_def

lemmas page_defs = render_def blank_def suggestions_failure_def truthy_def

lemmas event_defs = submit_def click_def keyPress_def change_def mount_def

lemma submit_empty:
  "username (ui k) = [] \<Longrightarrow> submit k = k\<lparr>ui := (ui k)\<lparr>error := Some validation_message\<rparr>\<rparr>"
  by (simp add: submit_def handleAnalyze_start_def)

lemma submit_nonempty:
  "username (ui k) \<noteq> [] \<Longrightarrow>
   submit k = \<lparr>ui = cleared (ui k),
     pending = pending k @ [\<lparr>closure_userData = userData (ui k), task_stage = AwaitUser\<rparr>],
     sent = sent k @ [Get (user_url (username (ui k)))]\<rparr>"
  by (cases "ui k") (simp add: submit_def handleAnalyze_start_def cleared_def)

lemma cleared_fields:
  "isLoading (cleared s)"
  "error (cleared s) = None"
  "userData (cleared s) = None"
  "repos (cleared s) = []"
  "suggestions (cleared s) = JArr []"
  "username (cleared s) = username s"
  "copiedIndex (cleared s) = copiedIndex s"
  by (simp_all add: cleared_def)

lemma validation_message_generic:
  "renderError (Some validation_message) = Some (Generic validation_message)"
  by (simp add: renderError_def validation_message_def)

lemma validation_message_truthy: "truthy (Some validation_message)"
  by (simp add: truthy_def validation_message_def)

text \<open>The drawing depends on the error cell only in the error panel and the ready panel.\<close>

lemma render_error_cell:
  "crash (render pos (s\<lparr>error := e\<rparr>)) = crash (render pos s)"
  "results_panel (render pos (s\<lparr>error := e\<rparr>)) = results_panel (render pos s)"
  by (simp_all add: render_def blank_def split: option.splits)

lemma render_loading:
  "isLoading s \<Longrightarrow>
   render pos s = \<lparr>submit_disabled = True, loading_panel = True, ready_panel = False,
     error_panel = None, results_panel = None, crash = None\<rparr>"
  by (simp add: render_def)

lemma drawn_results_not_loading: "results_panel (render pos s) \<noteq> None \<Longrightarrow> \<not> isLoading s"
  by (auto simp: render_def blank_def split: option.splits if_splits)

lemma drawn_error_not_loading: "error_panel (render pos s) \<noteq> None \<Longrightarrow> \<not> isLoading s"
  by (auto simp: render_def blank_def split: option.splits if_splits)

lemma drawn_results_no_crash: "results_panel (render pos s) \<noteq> None \<Longrightarrow> crash (render pos s) = None"
  by (auto simp: render_def blank_def split: option.splits if_splits)

lemma error_panel_drawn:
  "crash (render pos s) = None \<Longrightarrow> \<not> isLoading s \<Longrightarrow> truthy (error s) \<Longrightarrow>
   error_panel (render pos s) = renderError (error s)"
  by (auto simp: render_def blank_def split: option.splits if_splits)

lemma handleAnalyze_empty:
  "username s = [] \<Longrightarrow> handleAnalyze parse w s = (s\<lparr>error := Some validation_message\<rparr>, [])"
  by (simp add: handleAnalyze_def handleAnalyze_start_def)

lemma handleAnalyze_fetched:
  assumes "username s \<noteq> []"
    and "user_response w = Response st1 (Inr p)" and "ok st1"
    and "repos_response w = Response st2 (Inr rs)" and "ok st2"
  shows "handleAnalyze parse w s =
    (resume_gen parse (userData s) (gen_response w) (fetched s p rs),
     [Get (user_url (username s)), repos_request p, gen_request p rs])"
proof -
  from \<open>ok st1\<close> have "st1 \<noteq> 404" by (auto simp: ok_def)
  with assms show ?thesis
    by (cases s)
      (simp add: handleAnalyze_def handleAnalyze_start_def resume_user_def resume_repos_def
        fetched_def)
qed

lemma fetched_fields:
  "userData (fetched s p rs) = Some p"
  "repos (fetched s p rs) = rs"
  "error (fetched s p rs) = None"
  "suggestions (fetched s p rs) = JArr []"
  by (simp_all add: fetched_def)

lemma resume_gen_text:
  assumes "ok st" and "content_text result = Inr (Some t)"
  shows "resume_gen parse c (Response st (Inr result)) s =
    (case parse t of
       Inl m \<Rightarrow> catch_finally c (Thrown m) s
     | Inr v \<Rightarrow> s\<lparr>suggestions := v, isLoading := False\<rparr>)"
proof -
  from \<open>ok st\<close> have "st \<noteq> 403" by (auto simp: ok_def)
  with assms show ?thesis by (simp add: resume_gen_def)
qed

text \<open>
  The guarded cases of line 99: with no candidate, or with a first part whose text is
  missing or empty, the handler throws the block reason when there is one and the
  no-suggestions error otherwise.
\<close>

lemma resume_gen_absent:
  assumes "ok st" and "content_text result = Inr None"
  shows "resume_gen parse c (Response st (Inr result)) s =
    catch_finally c
      (case block_reason result of Some reason \<Rightarrow> ContentBlocked reason | None \<Rightarrow> NoSuggestions) s"
proof -
  from \<open>ok st\<close> have "st \<noteq> 403" by (auto simp: ok_def)
  with assms show ?thesis by (simp add: resume_gen_def split: option.splits)
qed

lemma resume_gen_thrown:
  assumes "ok st" and "content_text result = Inl e"
  shows "resume_gen parse c (Response st (Inr result)) s = catch_finally c e s"
proof -
  from \<open>ok st\<close> have "st \<noteq> 403" by (auto simp: ok_def)
  with assms show ?thesis by (simp add: resume_gen_def)
qed

lemma resume_gen_cases:
  "(\<exists>e. resume_gen parse c r s = catch_finally c e s)
   \<or> (\<exists>v. resume_gen parse c r s = s\<lparr>suggestions := v, isLoading := False\<rparr>)"
  by (auto simp: resume_gen_def split: fetch_result.splits sum.splits option.splits)

lemma shown_message_nonempty: "shown_message e \<noteq> []"
  by (simp add: shown_message_def restricted_message_def unexpected_message_def)

lemma catch_finally_fields:
  "error (catch_finally c e s) = Some (shown_message e)"
  "isLoading (catch_finally c e s) = False"
  "userData (catch_finally c e s) = (if c = None then None else userData s)"
  "repos (catch_finally c e s) = (if c = None then [] else repos s)"
  "suggestions (catch_finally c e s) = suggestions s"
  "username (catch_finally c e s) = username s"
  "copiedIndex (catch_finally c e s) = copiedIndex s"
  by (simp_all add: catch_finally_def Let_def)

text \<open>
  After a caught exception the suggestions are still the empty array of line 23, the
  drawing does not throw, and the error box is drawn from the message.
\<close>

lemma error_is_drawn:
  assumes "suggestions s = JArr []"
  shows "error_panel (render pos (catch_finally c e s)) = renderError (Some (shown_message e))"
    and "crash (render pos (catch_finally c e s)) = None"
  using assms
  by (simp_all add: page_defs catch_finally_fields shown_message_nonempty split: option.splits)

lemma renderError_shown: "renderError (Some (shown_message e)) \<noteq> None"
  by (simp add: renderError_def shown_message_nonempty)

text \<open>
  When the generation phase fails after both fetches, the profile and the repositories
  are kept exactly when the handler was created in a render that already had a profile.
\<close>

lemma generation_failure_data:
  assumes "username s \<noteq> []"
    and "user_response w = Response st1 (Inr p)" and "ok st1"
    and "repos_response w = Response st2 (Inr rs)" and "ok st2"
    and "error (fst (handleAnalyze parse w s)) \<noteq> None"
  shows "userData (fst (handleAnalyze parse w s)) = (if userData s = None then None else Some p)"
    and "repos (fst (handleAnalyze parse w s)) = (if userData s = None then [] else rs)"
proof -
  let ?s' = "fetched s p rs"
  have run: "fst (handleAnalyze parse w s) = resume_gen parse (userData s) (gen_response w) ?s'"
    using assms(1-5) by (simp add: handleAnalyze_fetched)
  from resume_gen_cases [of parse "userData s" "gen_response w" ?s']
  obtain e where caught: "resume_gen parse (userData s) (gen_response w) ?s'
      = catch_finally (userData s) e ?s'"
  proof
    assume "\<exists>e. resume_gen parse (userData s) (gen_response w) ?s'
      = catch_finally (userData s) e ?s'"
    then show ?thesis using that by blast
  next
    assume "\<exists>v. resume_gen parse (userData s) (gen_response w) ?s'
      = ?s'\<lparr>suggestions := v, isLoading := False\<rparr>"
    with run assms(6) show ?thesis by (auto simp: fetched_fields)
  qed
  show "userData (fst (handleAnalyze parse w s)) = (if userData s = None then None else Some p)"
    by (simp add: run caught catch_finally_fields fetched_fields)
  show "repos (fst (handleAnalyze parse w s)) = (if userData s = None then [] else rs)"
    by (simp add: run caught catch_finally_fields fetched_fields)
qed

text \<open>The exception each failing answer ends in, phase by phase.\<close>

lemma user_phase:
  assumes "username s \<noteq> []"
  shows "user_response w = NetworkError m \<Longrightarrow>
      fst (handleAnalyze parse w s) = catch_finally (userData s) (Thrown m) (cleared s)"
    and "user_response w = Response 404 b \<Longrightarrow>
      fst (handleAnalyze parse w s) = catch_finally (userData s) UserNotFound (cleared s)"
    and "user_response w = Response st b \<Longrightarrow> st \<noteq> 404 \<Longrightarrow> \<not> ok st \<Longrightarrow>
      fst (handleAnalyze parse w s) = catch_finally (userData s) (ProfileFetchFailed st) (cleared s)"
    and "user_response w = Response st (Inl m) \<Longrightarrow> ok st \<Longrightarrow>
      fst (handleAnalyze parse w s) = catch_finally (userData s) (Thrown m) (cleared s)"
  using assms
  by (cases s; simp add: handleAnalyze_def handleAnalyze_start_def resume_user_def cleared_def
      ok_def)+

lemma repos_phase:
  assumes "username s \<noteq> []" and "user_response w = Response st1 (Inr p)" and "ok st1"
  shows "repos_response w = NetworkError m \<Longrightarrow>
      fst (handleAnalyze parse w s) = catch_finally (userData s) (Thrown m) (cleared s)"
    and "repos_response w = Response st b \<Longrightarrow> \<not> ok st \<Longrightarrow>
      fst (handleAnalyze parse w s)
        = catch_finally (userData s) RepositoriesFetchFailed (cleared s)"
    and "repos_response w = Response st (Inl m) \<Longrightarrow> ok st \<Longrightarrow>
      fst (handleAnalyze parse w s) = catch_finally (userData s) (Thrown m) (cleared s)"
proof -
  from \<open>ok st1\<close> have "st1 \<noteq> 404" by (auto simp: ok_def)
  with assms show
    "repos_response w = NetworkError m \<Longrightarrow>
      fst (handleAnalyze parse w s) = catch_finally (userData s) (Thrown m) (cleared s)"
    "repos_response w = Response st b \<Longrightarrow> \<not> ok st \<Longrightarrow>
      fst (handleAnalyze parse w s)
        = catch_finally (userData s) RepositoriesFetchFailed (cleared s)"
    "repos_response w = Response st (Inl m) \<Longrightarrow> ok st \<Longrightarrow>
      fst (handleAnalyze parse w s) = catch_finally (userData s) (Thrown m) (cleared s)"
    by (cases s; simp add: handleAnalyze_def handleAnalyze_start_def resume_user_def
        resume_repos_def cleared_def)+
qed

lemma gen_phase:
  assumes "username s \<noteq> []"
    and "user_response w = Response st1 (Inr p)" and "ok st1"
    and "repos_response w = Response st2 (Inr rs)" and "ok st2"
  shows "gen_response w = NetworkError m \<Longrightarrow>
      fst (handleAnalyze parse w s) = catch_finally (userData s) (Thrown m) (fetched s p rs)"
    and "gen_response w = Response 403 b \<Longrightarrow>
      fst (handleAnalyze parse w s)
        = catch_finally (userData s) GenerationForbidden (fetched s p rs)"
    and "gen_response w = Response st b \<Longrightarrow> st \<noteq> 403 \<Longrightarrow> \<not> ok st \<Longrightarrow>
      fst (handleAnalyze parse w s)
        = catch_finally (userData s) (GenerationFailed st) (fetched s p rs)"
    and "gen_response w = Response st (Inl m) \<Longrightarrow> ok st \<Longrightarrow>
      fst (handleAnalyze parse w s) = catch_finally (userData s) (Thrown m) (fetched s p rs)"
    and "gen_response w = Response st (Inr result) \<Longrightarrow> ok st \<Longrightarrow> content_text result = Inl e \<Longrightarrow>
      fst (handleAnalyze parse w s) = catch_finally (userData s) e (fetched s p rs)"
    and "gen_response w = Response st (Inr result) \<Longrightarrow> ok st \<Longrightarrow>
      content_text result = Inr None \<Longrightarrow> block_reason result = Some reason \<Longrightarrow>
      fst (handleAnalyze parse w s)
        = catch_finally (userData s) (ContentBlocked reason) (fetched s p rs)"
    and "gen_response w = Response st (Inr result) \<Longrightarrow> ok st \<Longrightarrow>
      content_text result = Inr None \<Longrightarrow> block_reason result = None \<Longrightarrow>
      fst (handleAnalyze parse w s) = catch_finally (userData s) NoSuggestions (fetched s p rs)"
    and "gen_response w = Response st (Inr result) \<Longrightarrow> ok st \<Longrightarrow>
      content_text result = Inr (Some t) \<Longrightarrow> parse t = Inl m \<Longrightarrow>
      fst (handleAnalyze parse w s) = catch_finally (userData s) (Thrown m) (fetched s p rs)"
    and "gen_response w = Response st (Inr result) \<Longrightarrow> ok st \<Longrightarrow>
      content_text result = Inr (Some t) \<Longrightarrow> parse t = Inr v \<Longrightarrow>
      fst (handleAnalyze parse w s) = (fetched s p rs)\<lparr>suggestions := v, isLoading := False\<rparr>"
  using assms
  by (simp_all add: handleAnalyze_fetched resume_gen_text resume_gen_absent resume_gen_thrown)
    (simp_all add: resume_gen_def ok_def)

text \<open>Where the text that \<open>renderError\<close> looks for can and cannot occur.\<close>

lemma starts_with_set: "starts_with s t \<Longrightarrow> set t \<subseteq> set s"
  by (induction s t rule: starts_with.induct) auto

lemma str_includes_set: "str_includes s t \<Longrightarrow> set t \<subseteq> set s"
proof (induction s)
  case Nil
  then show ?case by (auto dest: starts_with_set)
next
  case (Cons c cs)
  from Cons.prems have "starts_with (c # cs) t \<or> str_includes cs t" by simp
  then show ?case
  proof
    assume "starts_with (c # cs) t"
    then show ?thesis by (rule starts_with_set)
  next
    assume "str_includes cs t"
    then have "set t \<subseteq> set cs" by (rule Cons.IH)
    then show ?thesis by auto
  qed
qed

lemma string_of_nat_digits: "set (string_of_nat n) \<subseteq> set ''0123456789''"
proof (induction n rule: string_of_nat.induct)
  case (1 n)
  show ?case
  proof (cases "n < 10")
    case True
    then show ?thesis
      by (subst string_of_nat.simps) (simp add: digit_char_def)
  next
    case False
    with "1" show ?thesis
      by (subst string_of_nat.simps) (auto simp: digit_char_def)
  qed
qed

lemma status_text_plain: "\<not> str_includes (string_of_nat n) ''API key restrictions''"
proof
  assume "str_includes (string_of_nat n) ''API key restrictions''"
  then have "set ''API key restrictions'' \<subseteq> set (string_of_nat n)"
    by (rule str_includes_set)
  with string_of_nat_digits [of n] have "CHR ''A'' \<in> set ''0123456789''"
    by auto
  then show False by simp
qed

lemma status_text_nonempty: "string_of_nat n \<noteq> []"
  by (subst string_of_nat.simps) simp

lemma status_text_not_sentinel: "x @ string_of_nat n \<noteq> ''API_KEY_RESTRICTED''"
proof
  assume eq: "x @ string_of_nat n = ''API_KEY_RESTRICTED''"
  have "last (x @ string_of_nat n) \<in> set (string_of_nat n)"
    using status_text_nonempty [of n] by simp
  with eq string_of_nat_digits [of n] show False by auto
qed

lemma generic_kinds:
  "renderError (Some (shown_message UserNotFound)) = Some (Generic (shown_message UserNotFound))"
  "renderError (Some (shown_message RepositoriesFetchFailed))
     = Some (Generic (shown_message RepositoriesFetchFailed))"
  "renderError (Some (shown_message NoSuggestions)) = Some (Generic (shown_message NoSuggestions))"
  by (simp_all add: renderError_def shown_message_def)

lemma forbidden_restricted:
  "renderError (Some (shown_message GenerationForbidden)) = Some (Restricted restricted_message)"
  by (simp add: renderError_def shown_message_def restricted_message_def)

lemma profile_status_generic:
  "renderError (Some (shown_message (ProfileFetchFailed n)))
     = Some (Generic (shown_message (ProfileFetchFailed n)))"
proof -
  have "message (ProfileFetchFailed n) \<noteq> ''API_KEY_RESTRICTED''"
    using status_text_not_sentinel by simp
  then show ?thesis
    by (simp add: renderError_def shown_message_def status_text_plain)
qed

lemma generation_status_generic:
  "renderError (Some (shown_message (GenerationFailed n)))
     = Some (Generic (shown_message (GenerationFailed n)))"
proof -
  have "message (GenerationFailed n) \<noteq> ''API_KEY_RESTRICTED''"
    using status_text_not_sentinel by simp
  then show ?thesis
    by (simp add: renderError_def shown_message_def status_text_plain)
qed

lemma blocked_generic:
  "\<not> str_includes reason ''API key restrictions'' \<Longrightarrow>
   renderError (Some (shown_message (ContentBlocked reason)))
     = Some (Generic (shown_message (ContentBlocked reason)))"
  by (simp add: renderError_def shown_message_def)

lemma thrown_generic:
  "m \<noteq> ''API_KEY_RESTRICTED'' \<Longrightarrow> \<not> str_includes m ''API key restrictions'' \<Longrightarrow>
   renderError (Some (shown_message (Thrown m))) = Some (Generic (shown_message (Thrown m)))"
  by (simp add: renderError_def shown_message_def unexpected_message_def)

lemma thrown_by_condition_generic:
  "content_text result = Inl e \<Longrightarrow>
   renderError (Some (shown_message e)) = Some (Generic (shown_message e))"
  by (auto simp: content_text_def cannot_read_def renderError_def shown_message_def
      split: field.splits list.splits option.splits if_splits)

text \<open>The error box after a run, phase by phase.\<close>

lemma validation_drawn:
  assumes "username s = []" and "\<not> isLoading s" and "crash (render pos s) = None"
  shows "error_panel (render pos (fst (handleAnalyze parse w s)))
    = Some (Generic validation_message)"
proof -
  let ?s = "s\<lparr>error := Some validation_message\<rparr>"
  from assms have "error_panel (render pos ?s) = renderError (error ?s)"
    by (intro error_panel_drawn) (simp_all add: render_error_cell validation_message_truthy)
  with assms(1) show ?thesis
    by (simp add: handleAnalyze_empty validation_message_generic)
qed

lemma shown_texts:
  "shown_message UserNotFound = ''GitHub user not found.''"
  "shown_message RepositoriesFetchFailed = ''Failed to fetch GitHub repository data.''"
  "shown_message NoSuggestions = ''AI failed to generate valid suggestions.''"
  "shown_message (ProfileFetchFailed n)
     = ''Failed to fetch GitHub user data. Status: '' @ string_of_nat n"
  "shown_message (GenerationFailed n) = ''AI API call failed with status: '' @ string_of_nat n"
  "\<not> str_includes reason ''API key restrictions'' \<Longrightarrow>
     shown_message (ContentBlocked reason) = ''AI content blocked: '' @ reason"
  using status_text_not_sentinel [of "''Failed to fetch GitHub user data. Status: ''" n]
    status_text_not_sentinel [of "''AI API call failed with status: ''" n]
  by (simp_all add: shown_message_def)

lemma drawn_user_phase:
  assumes "username s \<noteq> []"
  shows "user_response w = NetworkError m \<Longrightarrow> plain (Thrown m) \<Longrightarrow>
      error_panel (render pos (fst (handleAnalyze parse w s)))
        = Some (Generic (shown_message (Thrown m)))"
    and "user_response w = Response 404 b \<Longrightarrow>
      error_panel (render pos (fst (handleAnalyze parse w s)))
        = Some (Generic ''GitHub user not found.'')"
    and "user_response w = Response st b \<Longrightarrow> st \<noteq> 404 \<Longrightarrow> \<not> ok st \<Longrightarrow>
      error_panel (render pos (fst (handleAnalyze parse w s)))
        = Some (Generic (''Failed to fetch GitHub user data. Status: '' @ string_of_nat st))"
    and "user_response w = Response st (Inl m) \<Longrightarrow> ok st \<Longrightarrow> plain (Thrown m) \<Longrightarrow>
      error_panel (render pos (fst (handleAnalyze parse w s)))
        = Some (Generic (shown_message (Thrown m)))"
proof -
  show "user_response w = NetworkError m \<Longrightarrow> plain (Thrown m) \<Longrightarrow>
      error_panel (render pos (fst (handleAnalyze parse w s)))
        = Some (Generic (shown_message (Thrown m)))"
    by (simp add: user_phase(1) [OF assms] error_is_drawn cleared_fields thrown_generic plain_def)
  show "user_response w = Response 404 b \<Longrightarrow>
      error_panel (render pos (fst (handleAnalyze parse w s)))
        = Some (Generic ''GitHub user not found.'')"
    using generic_kinds(1)
    by (simp add: user_phase(2) [OF assms] error_is_drawn cleared_fields shown_texts)
  show "user_response w = Response st b \<Longrightarrow> st \<noteq> 404 \<Longrightarrow> \<not> ok st \<Longrightarrow>
      error_panel (render pos (fst (handleAnalyze parse w s)))
        = Some (Generic (''Failed to fetch GitHub user data. Status: '' @ string_of_nat st))"
    using profile_status_generic [of st]
    by (simp add: user_phase(3) [OF assms] error_is_drawn cleared_fields shown_texts)
  show "user_response w = Response st (Inl m) \<Longrightarrow> ok st \<Longrightarrow> plain (Thrown m) \<Longrightarrow>
      error_panel (render pos (fst (handleAnalyze parse w s)))
        = Some (Generic (shown_message (Thrown m)))"
    by (simp add: user_phase(4) [OF assms] error_is_drawn cleared_fields thrown_generic plain_def)
qed

lemma drawn_repos_phase:
  assumes "username s \<noteq> []" and "user_response w = Response st1 (Inr p)" and "ok st1"
  shows "repos_response w = NetworkError m \<Longrightarrow> plain (Thrown m) \<Longrightarrow>
      error_panel (render pos (fst (handleAnalyze parse w s)))
        = Some (Generic (shown_message (Thrown m)))"
    and "repos_response w = Response st b \<Longrightarrow> \<not> ok st \<Longrightarrow>
      error_panel (render pos (fst (handleAnalyze parse w s)))
        = Some (Generic ''Failed to fetch GitHub repository data.'')"
    and "repos_response w = Response st (Inl m) \<Longrightarrow> ok st \<Longrightarrow> plain (Thrown m) \<Longrightarrow>
      error_panel (render pos (fst (handleAnalyze parse w s)))
        = Some (Generic (shown_message (Thrown m)))"
proof -
  show "repos_response w = NetworkError m \<Longrightarrow> plain (Thrown m) \<Longrightarrow>
      error_panel (render pos (fst (handleAnalyze parse w s)))
        = Some (Generic (shown_message (Thrown m)))"
    by (simp add: repos_phase(1) [OF assms] error_is_drawn cleared_fields thrown_generic plain_def)
  show "repos_response w = Response st b \<Longrightarrow> \<not> ok st \<Longrightarrow>
      error_panel (render pos (fst (handleAnalyze parse w s)))
        = Some (Generic ''Failed to fetch GitHub repository data.'')"
    using generic_kinds(2)
    by (simp add: repos_phase(2) [OF assms] error_is_drawn cleared_fields shown_texts)
  show "repos_response w = Response st (Inl m) \<Longrightarrow> ok st \<Longrightarrow> plain (Thrown m) \<Longrightarrow>
      error_panel (render pos (fst (handleAnalyze parse w s)))
        = Some (Generic (shown_message (Thrown m)))"
    by (simp add: repos_phase(3) [OF assms] error_is_drawn cleared_fields thrown_generic plain_def)
qed

lemma drawn_gen_phase:
  assumes "username s \<noteq> []"
    and "user_response w = Response st1 (Inr p)" and "ok st1"
    and "repos_response w = Response st2 (Inr rs)" and "ok st2"
  shows "gen_response w = NetworkError m \<Longrightarrow> plain (Thrown m) \<Longrightarrow>
      error_panel (render pos (fst (handleAnalyze parse w s)))
        = Some (Generic (shown_message (Thrown m)))"
    and "gen_response w = Response 403 b \<Longrightarrow>
      error_panel (render pos (fst (handleAnalyze parse w s)))
        = Some (Restricted restricted_message)"
    and "gen_response w = Response st b \<Longrightarrow> st \<noteq> 403 \<Longrightarrow> \<not> ok st \<Longrightarrow>
      error_panel (render pos (fst (handleAnalyze parse w s)))
        = Some (Generic (''AI API call failed with status: '' @ string_of_nat st))"
    and "gen_response w = Response st (Inl m) \<Longrightarrow> ok st \<Longrightarrow> plain (Thrown m) \<Longrightarrow>
      error_panel (render pos (fst (handleAnalyze parse w s)))
        = Some (Generic (shown_message (Thrown m)))"
    and "gen_response w = Response st (Inr result) \<Longrightarrow> ok st \<Longrightarrow> content_text result = Inl e \<Longrightarrow>
      error_panel (render pos (fst (handleAnalyze parse w s)))
        = Some (Generic (shown_message e))"
    and "gen_response w = Response st (Inr result) \<Longrightarrow> ok st \<Longrightarrow>
      content_text result = Inr None \<Longrightarrow> block_reason result = Some reason \<Longrightarrow>
      plain (ContentBlocked reason) \<Longrightarrow>
      error_panel (render pos (fst (handleAnalyze parse w s)))
        = Some (Generic (''AI content blocked: '' @ reason))"
    and "gen_response w = Response st (Inr result) \<Longrightarrow> ok st \<Longrightarrow>
      content_text result = Inr None \<Longrightarrow> block_reason result = None \<Longrightarrow>
      error_panel (render pos (fst (handleAnalyze parse w s)))
        = Some (Generic ''AI failed to generate valid suggestions.'')"
    and "gen_response w = Response st (Inr result) \<Longrightarrow> ok st \<Longrightarrow>
      content_text result = Inr (Some t) \<Longrightarrow> parse t = Inl m \<Longrightarrow> plain (Thrown m) \<Longrightarrow>
      error_panel (render pos (fst (handleAnalyze parse w s)))
        = Some (Generic (shown_message (Thrown m)))"
proof -
  note drawn = error_is_drawn fetched_fields
  show "gen_response w = NetworkError m \<Longrightarrow> plain (Thrown m) \<Longrightarrow>
      error_panel (render pos (fst (handleAnalyze parse w s)))
        = Some (Generic (shown_message (Thrown m)))"
    by (simp add: gen_phase(1) [OF assms] drawn thrown_generic plain_def)
  show "gen_response w = Response 403 b \<Longrightarrow>
      error_panel (render pos (fst (handleAnalyze parse w s)))
        = Some (Restricted restricted_message)"
    by (simp add: gen_phase(2) [OF assms] drawn forbidden_restricted)
  show "gen_response w = Response st b \<Longrightarrow> st \<noteq> 403 \<Longrightarrow> \<not> ok st \<Longrightarrow>
      error_panel (render pos (fst (handleAnalyze parse w s)))
        = Some (Generic (''AI API call failed with status: '' @ string_of_nat st))"
    using generation_status_generic [of st]
    by (simp add: gen_phase(3) [OF assms] drawn shown_texts)
  show "gen_response w = Response st (Inl m) \<Longrightarrow> ok st \<Longrightarrow> plain (Thrown m) \<Longrightarrow>
      error_panel (render pos (fst (handleAnalyze parse w s)))
        = Some (Generic (shown_message (Thrown m)))"
    by (simp add: gen_phase(4) [OF assms] drawn thrown_generic plain_def)
  show "gen_response w = Response st (Inr result) \<Longrightarrow> ok st \<Longrightarrow> content_text result = Inl e \<Longrightarrow>
      error_panel (render pos (fst (handleAnalyze parse w s)))
        = Some (Generic (shown_message e))"
    by (simp add: gen_phase(5) [OF assms] drawn thrown_by_condition_generic)
  show "gen_response w = Response st (Inr result) \<Longrightarrow> ok st \<Longrightarrow>
      content_text result = Inr None \<Longrightarrow> block_reason result = Some reason \<Longrightarrow>
      plain (ContentBlocked reason) \<Longrightarrow>
      error_panel (render pos (fst (handleAnalyze parse w s)))
        = Some (Generic (''AI content blocked: '' @ reason))"
    using blocked_generic [of reason]
    by (simp add: gen_phase(6) [OF assms] drawn plain_def shown_texts)
  show "gen_response w = Response st (Inr result) \<Longrightarrow> ok st \<Longrightarrow>
      content_text result = Inr None \<Longrightarrow> block_reason result = None \<Longrightarrow>
      error_panel (render pos (fst (handleAnalyze parse w s)))
        = Some (Generic ''AI failed to generate valid suggestions.'')"
    using generic_kinds(3)
    by (simp add: gen_phase(7) [OF assms] drawn shown_texts)
  show "gen_response w = Response st (Inr result) \<Longrightarrow> ok st \<Longrightarrow>
      content_text result = Inr (Some t) \<Longrightarrow> parse t = Inl m \<Longrightarrow> plain (Thrown m) \<Longrightarrow>
      error_panel (render pos (fst (handleAnalyze parse w s)))
        = Some (Generic (shown_message (Thrown m)))"
    by (simp add: gen_phase(8) [OF assms] drawn thrown_generic plain_def)
qed

subsection \<open>Data fetched before a failure of the generation phase\<close>

text \<open>
  C1. The claim: when both GitHub fetches succeed and the generation phase fails, the
  profile and the repositories stay in the state and on the page, also for the first
  analysis of a new component. On the code: a component just mounted analyses
  \<open>octocat\<close>, both fetches answer 200, the generative endpoint answers 403. The handler
  was created in a render where \<open>userData\<close> was \<open>null\<close>, so line 118 to 121 clear the
  profile and the repositories again, and the results panel is not drawn (the page is
  drawn, with the error box only).
\<close>

theorem first_analysis_discards_fetched_data:
  "userData (fst (handleAnalyze JSON_parse_sample (answers (Response 403 (Inl []))) fresh)) = None
   \<and> repos (fst (handleAnalyze JSON_parse_sample (answers (Response 403 (Inl []))) fresh)) = []
   \<and> error (fst (handleAnalyze JSON_parse_sample (answers (Response 403 (Inl []))) fresh))
       = Some restricted_message
   \<and> results_panel (render pos (fst (handleAnalyze JSON_parse_sample
       (answers (Response 403 (Inl []))) fresh))) = None
   \<and> crash (render pos (fst (handleAnalyze JSON_parse_sample
       (answers (Response 403 (Inl []))) fresh))) = None"
  by (simp add: run_defs sample_defs page_defs)

subsection \<open>Submissions while loading\<close>

text \<open>
  C2. The claim: while an analysis is in flight no submission path starts another one.
  On the code: after a click has started an analysis, a second click does nothing (the
  button is disabled), but the Enter key in the field calls the handler again: a second
  request is sent and two handlers are waiting.
\<close>

theorem enter_during_loading_starts_second_analysis:
  "isLoading (ui (click (change ''octocat'' mount)))
   \<and> click (click (change ''octocat'' mount)) = click (change ''octocat'' mount)
   \<and> sent (click (change ''octocat'' mount)) = [Get ''https://api.github.com/users/octocat'']
   \<and> sent (keyPress ''Enter'' (click (change ''octocat'' mount)))
       = [Get ''https://api.github.com/users/octocat'', Get ''https://api.github.com/users/octocat'']
   \<and> length (pending (keyPress ''Enter'' (click (change ''octocat'' mount)))) = 2"
  by (simp add: event_defs initial_def handleAnalyze_start_def user_url_def)

subsection \<open>Empty and blank queries\<close>

text \<open>
  C3, as claimed: every empty or whitespace-only query is rejected without a network
  call. On the code the query of one space is not rejected: the user resource is
  requested, no error is set and the component is loading.
\<close>

theorem whitespace_query_is_fetched:
  "whitespace_only '' ''
   \<and> sent (keyPress ''Enter'' (change '' '' mount)) = [Get ''https://api.github.com/users/ '']
   \<and> error (ui (keyPress ''Enter'' (change '' '' mount))) = None
   \<and> isLoading (ui (keyPress ''Enter'' (change '' '' mount)))"
  by (simp add: event_defs initial_def handleAnalyze_start_def user_url_def whitespace_only_def
      is_space_def)

text \<open>
  C3, amended. For the empty query, a submission (the Enter key, or the button when it is
  enabled) sends no request, starts no handler and sets the error to the validation
  message; when nothing is loading and the page is drawn, the message is on the page in
  the generic error box. For every query that is not empty, whitespace-only ones
  included, a submission sets no error: it sends the request for the user resource with
  the query appended as it is, starts a handler and leaves the component loading.
\<close>

theorem only_the_empty_query_is_rejected:
  "keyPress ''Enter'' k = submit k
   \<and> (\<not> isLoading (ui k) \<longrightarrow> click k = submit k)
   \<and> (username (ui k) = [] \<longrightarrow>
        sent (submit k) = sent k
        \<and> pending (submit k) = pending k
        \<and> error (ui (submit k)) = Some validation_message
        \<and> (\<not> isLoading (ui k) \<and> crash (render pos (ui k)) = None \<longrightarrow>
             error_panel (render pos (ui (submit k))) = Some (Generic validation_message)))
   \<and> (username (ui k) \<noteq> [] \<longrightarrow>
        sent (submit k) = sent k @ [Get (''https://api.github.com/users/'' @ username (ui k))]
        \<and> pending (submit k)
            = pending k @ [\<lparr>closure_userData = userData (ui k), task_stage = AwaitUser\<rparr>]
        \<and> error (ui (submit k)) = None
        \<and> isLoading (ui (submit k)))"
proof -
  have "keyPress ''Enter'' k = submit k"
    by (simp add: keyPress_def)
  moreover have "\<not> isLoading (ui k) \<longrightarrow> click k = submit k"
    by (simp add: click_def)
  moreover have "error_panel (render pos (ui (submit k))) = Some (Generic validation_message)"
    if "username (ui k) = []" and "\<not> isLoading (ui k)" and "crash (render pos (ui k)) = None"
  proof -
    let ?s = "(ui k)\<lparr>error := Some validation_message\<rparr>"
    from that have "error_panel (render pos ?s) = renderError (error ?s)"
      by (intro error_panel_drawn) (simp_all add: render_error_cell validation_message_truthy)
    with that(1) show ?thesis
      by (simp add: submit_empty validation_message_generic)
  qed
  ultimately show ?thesis
    by (simp add: submit_empty submit_nonempty cleared_fields user_url_def)
qed

theorem only_the_empty_query_is_rejected_witness:
  "username (ui mount) = []
   \<and> sent (click mount) = []
   \<and> pending (click mount) = []
   \<and> error (ui (click mount)) = Some validation_message
   \<and> error_panel (render (\<lambda>x. False) (ui (click mount))) = Some (Generic validation_message)
   \<and> whitespace_only (username (ui (change '' '' mount)))
   \<and> sent (keyPress ''Enter'' (change '' '' mount)) = [Get ''https://api.github.com/users/ '']
   \<and> error (ui (keyPress ''Enter'' (change '' '' mount))) = None
   \<and> isLoading (ui (keyPress ''Enter'' (change '' '' mount)))"
proof -
  have empty: "username (ui mount) = []" "\<not> isLoading (ui mount)" "sent mount = []"
    "pending mount = []" "crash (render (\<lambda>x. False) (ui mount)) = None"
    by (simp_all add: mount_def initial_def page_defs)
  have blank: "username (ui (change '' '' mount)) = '' ''" "sent (change '' '' mount) = []"
    "whitespace_only '' ''"
    by (simp_all add: change_def mount_def whitespace_only_def is_space_def)
  from only_the_empty_query_is_rejected [of mount "\<lambda>x. False"]
    only_the_empty_query_is_rejected [of "change '' '' mount" "\<lambda>x. False"] empty blank
  show ?thesis by simp
qed

subsection \<open>The frame of an empty submission\<close>

text \<open>
  C10. Submitting the empty query changes the error cell only: the loading flag, the
  profile, the repositories, the suggestions, the copied index and the query keep their
  values, nothing is sent, and the results panel is drawn as before; when results were on
  the page, the validation message is drawn in the generic error box together with
  them.
\<close>

theorem empty_submit_changes_only_error:
  assumes "username (ui k) = []"
  shows "error (ui (keyPress ''Enter'' k)) = Some validation_message
    \<and> isLoading (ui (keyPress ''Enter'' k)) = isLoading (ui k)
    \<and> userData (ui (keyPress ''Enter'' k)) = userData (ui k)
    \<and> repos (ui (keyPress ''Enter'' k)) = repos (ui k)
    \<and> suggestions (ui (keyPress ''Enter'' k)) = suggestions (ui k)
    \<and> copiedIndex (ui (keyPress ''Enter'' k)) = copiedIndex (ui k)
    \<and> username (ui (keyPress ''Enter'' k)) = username (ui k)
    \<and> pending (keyPress ''Enter'' k) = pending k
    \<and> sent (keyPress ''Enter'' k) = sent k
    \<and> results_panel (render pos (ui (keyPress ''Enter'' k))) = results_panel (render pos (ui k))
    \<and> (in_results pos (ui k) \<longrightarrow>
         click k = keyPress ''Enter'' k
         \<and> error_panel (render pos (ui (keyPress ''Enter'' k)))
             = Some (Generic validation_message))"
proof -
  let ?s = "(ui k)\<lparr>error := Some validation_message\<rparr>"
  from assms have k': "keyPress ''Enter'' k = k\<lparr>ui := ?s\<rparr>"
    by (simp add: keyPress_def submit_empty)
  have drawn: "error_panel (render pos ?s) = Some (Generic validation_message)"
    and pressed: "click k = keyPress ''Enter'' k" if "in_results pos (ui k)"
  proof -
    from that have live: "\<not> isLoading (ui k)" "crash (render pos (ui k)) = None"
      by (simp_all add: in_results_def drawn_results_not_loading drawn_results_no_crash)
    then have "error_panel (render pos ?s) = renderError (error ?s)"
      by (intro error_panel_drawn) (simp_all add: render_error_cell validation_message_truthy)
    then show "error_panel (render pos ?s) = Some (Generic validation_message)"
      by (simp add: validation_message_generic)
    from live show "click k = keyPress ''Enter'' k"
      by (simp add: click_def keyPress_def)
  qed
  show ?thesis
    using drawn pressed by (simp add: k' render_error_cell)
qed

theorem empty_submit_changes_only_error_witness:
  "username (ui shown_results) = []
   \<and> in_results (\<lambda>x. False) (ui shown_results)
   \<and> click shown_results = keyPress ''Enter'' shown_results
   \<and> results_panel (render (\<lambda>x. False) (ui (keyPress ''Enter'' shown_results)))
       = results_panel (render (\<lambda>x. False) (ui shown_results))
   \<and> error_panel (render (\<lambda>x. False) (ui (keyPress ''Enter'' shown_results)))
       = Some (Generic validation_message)
   \<and> copiedIndex (ui (keyPress ''Enter'' shown_results)) = Some 0"
proof -
  have empty: "username (ui shown_results) = []"
    by (simp add: shown_results_def)
  have shown: "in_results (\<lambda>x. False) (ui shown_results)"
    by (simp add: shown_results_def in_results_def page_defs item_children_ok_def child_ok_def)
  have copied: "copiedIndex (ui shown_results) = Some 0"
    by (simp add: shown_results_def)
  from empty shown copied empty_submit_changes_only_error [OF empty, of "\<lambda>x. False"]
  show ?thesis by simp
qed

subsection \<open>A new submission clears the previous cycle\<close>

text \<open>
  C7. From a page that shows an error or results, a submission of a non-empty query
  (button or Enter key) leaves the component loading with the error, the profile, the
  repositories and the suggestions cleared, and the request for the user resource is the
  one request added; only the loading panel is drawn.
\<close>

theorem new_submission_clears_previous_cycle:
  assumes "username (ui k) \<noteq> []"
    and "in_error pos (ui k) \<or> in_results pos (ui k)"
    and "k' = click k \<or> k' = keyPress ''Enter'' k"
  shows "isLoading (ui k')
    \<and> error (ui k') = None
    \<and> userData (ui k') = None
    \<and> repos (ui k') = []
    \<and> suggestions (ui k') = JArr []
    \<and> sent k' = sent k @ [Get (user_url (username (ui k)))]
    \<and> render pos (ui k') = \<lparr>submit_disabled = True, loading_panel = True, ready_panel = False,
         error_panel = None, results_panel = None, crash = None\<rparr>"
proof -
  from assms(2) have "\<not> isLoading (ui k)"
    using drawn_results_not_loading [of pos "ui k"] drawn_error_not_loading [of pos "ui k"]
    by (auto simp: in_error_def in_results_def)
  with assms(3) have "k' = submit k"
    by (auto simp: click_def keyPress_def)
  with assms(1) show ?thesis
    by (simp add: submit_nonempty cleared_fields render_loading)
qed

theorem new_submission_clears_previous_cycle_witness:
  "username (ui (change ''octocat'' shown_results)) \<noteq> []
   \<and> in_results (\<lambda>x. False) (ui (change ''octocat'' shown_results))
   \<and> isLoading (ui (click (change ''octocat'' shown_results)))
   \<and> error (ui (click (change ''octocat'' shown_results))) = None
   \<and> userData (ui (click (change ''octocat'' shown_results))) = None
   \<and> repos (ui (click (change ''octocat'' shown_results))) = []
   \<and> suggestions (ui (click (change ''octocat'' shown_results))) = JArr []
   \<and> sent (click (change ''octocat'' shown_results))
       = [Get (user_url ''octocat'')]"
proof -
  have typed: "username (ui (change ''octocat'' shown_results)) \<noteq> []"
    by (simp add: change_def)
  have shown: "in_results (\<lambda>x. False) (ui (change ''octocat'' shown_results))"
    by (simp add: change_def shown_results_def in_results_def page_defs item_children_ok_def
        child_ok_def)
  have req: "sent (change ''octocat'' shown_results) = []"
    and name: "username (ui (change ''octocat'' shown_results)) = ''octocat''"
    by (simp_all add: change_def shown_results_def)
  from new_submission_clears_previous_cycle [OF typed disjI2 [OF shown] disjI1 [OF refl]]
    typed shown req name
  show ?thesis by simp
qed

subsection \<open>The parsed content\<close>

text \<open>
  C4. The claim: a content that is present is parsed, and a parse failure or a violation
  of the shape (an array of objects with non-empty \<open>title\<close> and \<open>markdown\<close>) ends in a
  rendered error, never in an uncaught crash. On the code: both fetches answer 200 and
  the content of the generation response is the text \<open>null\<close>. It parses, line 102 stores
  \<open>null\<close> as the suggestions and the handler ends with no error. The next drawing shows
  the results panel, reads \<open>suggestions.length\<close> on line 236 and throws outside any
  \<open>try\<close>: nothing is left on the page. The content \<open>[null]\<close> does the same on line 246.
\<close>

theorem null_content_crashes_the_page:
  "JSON_parse_sample ''null'' = Inr JNull
   \<and> \<not> well_shaped JNull
   \<and> error (fst (handleAnalyze JSON_parse_sample
       (answers (Response 200 (Inr (with_text ''null'')))) fresh)) = None
   \<and> suggestions (fst (handleAnalyze JSON_parse_sample
       (answers (Response 200 (Inr (with_text ''null'')))) fresh)) = JNull
   \<and> render pos (fst (handleAnalyze JSON_parse_sample
       (answers (Response 200 (Inr (with_text ''null'')))) fresh))
       = \<lparr>submit_disabled = False, loading_panel = False, ready_panel = False,
          error_panel = None, results_panel = None, crash = Some (NullProperty ''length'')\<rparr>
   \<and> error (fst (handleAnalyze JSON_parse_sample
       (answers (Response 200 (Inr (with_text ''[null]'')))) fresh)) = None
   \<and> crash (render pos (fst (handleAnalyze JSON_parse_sample
       (answers (Response 200 (Inr (with_text ''[null]'')))) fresh)))
       = Some (NullProperty ''title'')"
  by (simp add: run_defs sample_defs page_defs)

subsection \<open>The stored repositories\<close>




subsection \<open>A response without content\<close>

text \<open>
  C6. The claim: a successful response without a first-candidate first-part text fails
  with the block reason when there is one, and with the no-suggestions error otherwise.
  On the code: the only candidate has no content and the prompt feedback gives the
  reason \<open>SAFETY\<close>. Line 99 reads \<open>parts\<close> of the missing content, the \<open>TypeError\<close> is
  caught, and its message is the error: neither the block reason nor the no-suggestions
  text. With an empty candidate list the same response gives the block reason.
\<close>

theorem candidate_without_content_is_a_type_error:
  "error (fst (handleAnalyze JSON_parse_sample (answers (Response 200 (Inr blocked_candidate)))
       fresh)) = Some (cannot_read ''undefined'' ''parts'')
   \<and> cannot_read ''undefined'' ''parts'' \<noteq> ''AI content blocked: SAFETY''
   \<and> cannot_read ''undefined'' ''parts'' \<noteq> ''AI failed to generate valid suggestions.''
   \<and> error (fst (handleAnalyze JSON_parse_sample
       (answers (Response 200 (Inr (blocked_candidate\<lparr>candidates := Present []\<rparr>)))) fresh))
       = Some ''AI content blocked: SAFETY''"
  by (simp add: run_defs sample_defs blocked_candidate_def cannot_read_def)

subsection \<open>A failed repositories fetch\<close>

text \<open>
  C8. The claim: when the repositories fetch answers a non-success status, the error
  carries that status, the error state is reached and the profile stays unset. On the
  code: with the status 500 the error is a fixed text without the status, and the whole
  final state is the one the status 503 gives; the profile is unset. The same status on
  the user resource is written into the error (line 32).
\<close>

theorem repositories_error_has_no_status:
  "error (fst (handleAnalyze JSON_parse_sample (repos_answer 500) fresh))
     = Some ''Failed to fetch GitHub repository data.''
   \<and> fst (handleAnalyze JSON_parse_sample (repos_answer 500) fresh)
     = fst (handleAnalyze JSON_parse_sample (repos_answer 503) fresh)
   \<and> userData (fst (handleAnalyze JSON_parse_sample (repos_answer 500) fresh)) = None
   \<and> error (fst (handleAnalyze JSON_parse_sample
        ((repos_answer 500)\<lparr>user_response := Response 500 (Inl [])\<rparr>) fresh))
     = Some ''Failed to fetch GitHub user data. Status: 500''"
  by (simp add: run_defs sample_defs repos_answer_def string_of_nat.simps digit_char_def)

subsection \<open>The two renderings of an error\<close>

text \<open>
  C9, as claimed: only the 403 of the generation call is drawn with the restricted
  rendering. On the code a response without candidates whose block reason is the text
  \<open>API key restrictions\<close> fails with the content-blocked error, and that error is drawn
  with the restricted rendering.
\<close>

theorem block_reason_can_select_restricted_rendering:
  "error_panel (render (\<lambda>x. False) (fst (handleAnalyze JSON_parse_sample
      (answers (Response 200 (Inr \<lparr>candidates = Missing,
         promptFeedback = Present \<lparr>blockReason = Present ''API key restrictions''\<rparr>\<rparr>))) fresh)))
     = Some (Restricted ''AI content blocked: API key restrictions'')"
  by (simp add: run_defs sample_defs page_defs renderError_def)

text \<open>
  C9, amended, for one run of the handler and the page drawn after it. When the
  generation call answers 403, the error is drawn with the restricted rendering. It is
  drawn with the generic rendering, with the text of the source, when the user resource
  answers 404 or another non-success status, when the repositories resource answers a
  non-success status, when the generation call answers a non-success status other than
  403, when the content is absent and no block reason is given, when line 99 reads a
  property of a missing or \<open>null\<close> value, and for the empty query. When the content is
  absent with a block reason, and when the platform throws (a fetch that is rejected, a
  body or a content that does not parse), the error is drawn with the generic rendering
  provided the reason or the platform's message does not contain \<open>API key restrictions\<close>
  (and the message is not the sentinel \<open>API_KEY_RESTRICTED\<close>), which is what \<open>plain\<close>
  says.
\<close>

theorem rendering_follows_the_failing_call:
  "(username s = [] \<and> \<not> isLoading s \<and> crash (render pos s) = None \<longrightarrow>
      error_panel (render pos (fst (handleAnalyze parse w s)))
        = Some (Generic validation_message))
   \<and> (username s \<noteq> [] \<longrightarrow>
      (user_response w = NetworkError m \<and> plain (Thrown m) \<longrightarrow>
         error_panel (render pos (fst (handleAnalyze parse w s)))
           = Some (Generic (shown_message (Thrown m))))
      \<and> (user_response w = Response 404 b1 \<longrightarrow>
         error_panel (render pos (fst (handleAnalyze parse w s)))
           = Some (Generic ''GitHub user not found.''))
      \<and> (user_response w = Response st b1 \<and> st \<noteq> 404 \<and> \<not> ok st \<longrightarrow>
         error_panel (render pos (fst (handleAnalyze parse w s)))
           = Some (Generic (''Failed to fetch GitHub user data. Status: '' @ string_of_nat st)))
      \<and> (user_response w = Response st (Inl m) \<and> ok st \<and> plain (Thrown m) \<longrightarrow>
         error_panel (render pos (fst (handleAnalyze parse w s)))
           = Some (Generic (shown_message (Thrown m))))
      \<and> (user_response w = Response st1 (Inr p) \<and> ok st1 \<longrightarrow>
         (repos_response w = NetworkError m \<and> plain (Thrown m) \<longrightarrow>
            error_panel (render pos (fst (handleAnalyze parse w s)))
              = Some (Generic (shown_message (Thrown m))))
         \<and> (repos_response w = Response st b2 \<and> \<not> ok st \<longrightarrow>
            error_panel (render pos (fst (handleAnalyze parse w s)))
              = Some (Generic ''Failed to fetch GitHub repository data.''))
         \<and> (repos_response w = Response st (Inl m) \<and> ok st \<and> plain (Thrown m) \<longrightarrow>
            error_panel (render pos (fst (handleAnalyze parse w s)))
              = Some (Generic (shown_message (Thrown m))))
         \<and> (repos_response w = Response st2 (Inr rs) \<and> ok st2 \<longrightarrow>
            (gen_response w = NetworkError m \<and> plain (Thrown m) \<longrightarrow>
               error_panel (render pos (fst (handleAnalyze parse w s)))
                 = Some (Generic (shown_message (Thrown m))))
            \<and> (gen_response w = Response 403 b3 \<longrightarrow>
               error_panel (render pos (fst (handleAnalyze parse w s)))
                 = Some (Restricted restricted_message))
            \<and> (gen_response w = Response st b3 \<and> st \<noteq> 403 \<and> \<not> ok st \<longrightarrow>
               error_panel (render pos (fst (handleAnalyze parse w s)))
                 = Some (Generic (''AI API call failed with status: '' @ string_of_nat st)))
            \<and> (gen_response w = Response st (Inl m) \<and> ok st \<and> plain (Thrown m) \<longrightarrow>
               error_panel (render pos (fst (handleAnalyze parse w s)))
                 = Some (Generic (shown_message (Thrown m))))
            \<and> (gen_response w = Response st (Inr result) \<and> ok st \<longrightarrow>
               (content_text result = Inl e \<longrightarrow>
                  error_panel (render pos (fst (handleAnalyze parse w s)))
                    = Some (Generic (shown_message e)))
               \<and> (content_text result = Inr None \<and> block_reason result = Some reason
                    \<and> plain (ContentBlocked reason) \<longrightarrow>
                  error_panel (render pos (fst (handleAnalyze parse w s)))
                    = Some (Generic (''AI content blocked: '' @ reason)))
               \<and> (content_text result = Inr None \<and> block_reason result = None \<longrightarrow>
                  error_panel (render pos (fst (handleAnalyze parse w s)))
                    = Some (Generic ''AI failed to generate valid suggestions.''))
               \<and> (content_text result = Inr (Some t) \<and> parse t = Inl m
                    \<and> plain (Thrown m) \<longrightarrow>
                  error_panel (render pos (fst (handleAnalyze parse w s)))
                    = Some (Generic (shown_message (Thrown m))))))))"
  by (intro conjI impI; (elim conjE)?;
      (rule validation_drawn drawn_user_phase drawn_repos_phase drawn_gen_phase; assumption))

theorem rendering_follows_the_failing_call_witness:
  "error_panel (render (\<lambda>x. False) (fst (handleAnalyze JSON_parse_sample
       (answers (Response 403 (Inl []))) fresh))) = Some (Restricted restricted_message)
   \<and> error_panel (render (\<lambda>x. False) (fst (handleAnalyze JSON_parse_sample
       (answers (Response 500 (Inl []))) fresh)))
       = Some (Generic ''AI API call failed with status: 500'')
   \<and> error_panel (render (\<lambda>x. False) (fst (handleAnalyze JSON_parse_sample
       (answers (Response 200 (Inr blocked_candidate))) fresh)))
       = Some (Generic (cannot_read ''undefined'' ''parts''))
   \<and> error_panel (render (\<lambda>x. False) (fst (handleAnalyze JSON_parse_sample
       (answers (Response 403 (Inl []))) initial))) = Some (Generic validation_message)"
proof -
  have typed: "username fresh \<noteq> []"
    by (simp add: fresh_def)
  have github: "user_response (answers g) = Response 200 (Inr octocat)"
    "repos_response (answers g) = Response 200 (Inr [hello_world])"
    "gen_response (answers g) = g" "ok 200" for g
    by (simp_all add: answers_def ok_def)
  have status: "\<not> ok 500" "string_of_nat 500 = ''500''"
    by (simp_all add: ok_def string_of_nat.simps digit_char_def)
  have missing: "content_text blocked_candidate = Inl (Thrown (cannot_read ''undefined'' ''parts''))"
    "shown_message (Thrown (cannot_read ''undefined'' ''parts'')) = cannot_read ''undefined'' ''parts''"
    by (simp_all add: content_text_def blocked_candidate_def shown_message_def cannot_read_def)
  have idle: "username initial = []" "\<not> isLoading initial"
    "crash (render (\<lambda>x. False) initial) = None"
    by (simp_all add: initial_def page_defs)
  from typed github status missing idle
    rendering_follows_the_failing_call [where s = fresh and pos = "\<lambda>x. False"
      and parse = JSON_parse_sample and w = "answers (Response 403 (Inl []))"
      and ?st1.0 = 200 and p = octocat and ?st2.0 = 200 and rs = "[hello_world]"
      and ?b3.0 = "Inl []"]
    rendering_follows_the_failing_call [where s = fresh and pos = "\<lambda>x. False"
      and parse = JSON_parse_sample and w = "answers (Response 500 (Inl []))"
      and ?st1.0 = 200 and p = octocat and ?st2.0 = 200 and rs = "[hello_world]"
      and st = 500 and ?b3.0 = "Inl []"]
    rendering_follows_the_failing_call [where s = fresh and pos = "\<lambda>x. False"
      and parse = JSON_parse_sample and w = "answers (Response 200 (Inr blocked_candidate))"
      and ?st1.0 = 200 and p = octocat and ?st2.0 = 200 and rs = "[hello_world]"
      and st = 200 and result = blocked_candidate
      and e = "Thrown (cannot_read ''undefined'' ''parts'')"]
    rendering_follows_the_failing_call [where s = initial and pos = "\<lambda>x. False"
      and parse = JSON_parse_sample and w = "answers (Response 403 (Inl []))"]
  show ?thesis by simp
qed

end
